theory Spec2Isabelle
  imports Complex_Main
begin

section \<open>Values of the calculator\<close>

text \<open>
  The carbon calculator (\<^verbatim>\<open>staticfiles/js/carbon-calculator.js\<close>) computes with JavaScript
  numbers. A number is modelled as a real, one of the two infinities, or NaN. Finite
  values are exact reals: the rounding and the overflow of binary doubles are not part of
  the model, and neither is the sign of zero.
\<close>

datatype jsnum = Num real | NaN | PosInf | NegInf

text \<open>
  A string is kept as the pieces it was put together from: literal characters, the
  decimal text of a number, and the source text of a built-in function (which the
  language leaves to the implementation).
\<close>

datatype jstext = Chars string | NumberText jsnum | FunctionText string | Append jstext jstext

text \<open>
  The values the calculator handles: numbers, \<^verbatim>\<open>undefined\<close>, the members every object
  literal inherits from \<^verbatim>\<open>Object.prototype\<close> (built-in functions, and the prototype object
  itself under \<^verbatim>\<open>__proto__\<close>), and the strings that \<^verbatim>\<open>+\<close> builds once one of its operands
  is such a member.
\<close>

datatype jsval = Number jsnum | Undefined | Func string | Proto | Str jstext

subsection \<open>Arithmetic on numbers\<close>

text \<open>
  The product, sum and quotient of two finite numbers are computed exactly here, where a
  double would round or overflow. The formulas of the calculator are therefore stated
  below through the operators themselves, applied as the source applies them, and those
  statements do not depend on how the result of an operator is rounded.
\<close>

definition inf_of_sign :: "real \<Rightarrow> jsnum" where
  "inf_of_sign s = (if s = 0 then NaN else if 0 < s then PosInf else NegInf)"

fun sign_of :: "jsnum \<Rightarrow> real" where
  "sign_of (Num a) = a"
| "sign_of PosInf = 1"
| "sign_of NegInf = - 1"
| "sign_of NaN = 0"

fun num_neg :: "jsnum \<Rightarrow> jsnum" where
  "num_neg (Num a) = Num (- a)"
| "num_neg PosInf = NegInf"
| "num_neg NegInf = PosInf"
| "num_neg NaN = NaN"

fun num_mul :: "jsnum \<Rightarrow> jsnum \<Rightarrow> jsnum" where
  "num_mul NaN b = NaN"
| "num_mul a NaN = NaN"
| "num_mul (Num a) (Num b) = Num (a * b)"
| "num_mul a b = inf_of_sign (sign_of a * sign_of b)"

fun num_add :: "jsnum \<Rightarrow> jsnum \<Rightarrow> jsnum" where
  "num_add NaN b = NaN"
| "num_add a NaN = NaN"
| "num_add (Num a) (Num b) = Num (a + b)"
| "num_add PosInf NegInf = NaN"
| "num_add NegInf PosInf = NaN"
| "num_add (Num a) b = b"
| "num_add a b = a"

text \<open>Division by a zero divisor follows the rules for positive zero.\<close>

fun num_div :: "jsnum \<Rightarrow> jsnum \<Rightarrow> jsnum" where
  "num_div NaN b = NaN"
| "num_div a NaN = NaN"
| "num_div (Num a) (Num b) = (if b = 0 then inf_of_sign a else Num (a / b))"
| "num_div (Num a) b = Num 0"
| "num_div a (Num b) = (if b = 0 then a else inf_of_sign (sign_of a * b))"
| "num_div a b = NaN"

fun num_lt :: "jsnum \<Rightarrow> jsnum \<Rightarrow> bool" where
  "num_lt NaN b = False"
| "num_lt a NaN = False"
| "num_lt (Num a) (Num b) = (a < b)"
| "num_lt NegInf NegInf = False"
| "num_lt NegInf b = True"
| "num_lt PosInf b = False"
| "num_lt (Num a) PosInf = True"
| "num_lt (Num a) NegInf = False"

subsection \<open>Conversions and operators on values\<close>

text \<open>
  \<^verbatim>\<open>ToNumber\<close>: \<^verbatim>\<open>undefined\<close> gives NaN; an object or function is first turned into its
  text (\<^verbatim>\<open>[object Object]\<close>, \<^verbatim>\<open>function f() { [native code] }\<close>), which is not a numeric
  literal; and every string the calculator builds contains such a text.
\<close>

fun to_number :: "jsval \<Rightarrow> jsnum" where
  "to_number (Number n) = n"
| "to_number Undefined = NaN"
| "to_number (Func f) = NaN"
| "to_number Proto = NaN"
| "to_number (Str t) = NaN"

text \<open>\<^verbatim>\<open>ToBoolean\<close>: zero, NaN, \<^verbatim>\<open>undefined\<close> and the empty string are falsy.\<close>

fun text_empty :: "jstext \<Rightarrow> bool" where
  "text_empty (Chars s) = (s = [])"
| "text_empty (NumberText n) = False"
| "text_empty (FunctionText f) = False"
| "text_empty (Append a b) = (text_empty a \<and> text_empty b)"

fun truthy :: "jsval \<Rightarrow> bool" where
  "truthy (Number (Num a)) = (a \<noteq> 0)"
| "truthy (Number NaN) = False"
| "truthy (Number PosInf) = True"
| "truthy (Number NegInf) = True"
| "truthy Undefined = False"
| "truthy (Func f) = True"
| "truthy Proto = True"
| "truthy (Str t) = (\<not> text_empty t)"

definition js_or :: "jsval \<Rightarrow> jsval \<Rightarrow> jsval" where
  "js_or a b = (if truthy a then a else b)"

definition js_mul :: "jsval \<Rightarrow> jsval \<Rightarrow> jsval" where
  "js_mul a b = Number (num_mul (to_number a) (to_number b))"

definition js_div :: "jsval \<Rightarrow> jsval \<Rightarrow> jsval" where
  "js_div a b = Number (num_div (to_number a) (to_number b))"

text \<open>
  \<^verbatim>\<open>a + b\<close>: both operands are made primitive; if one of them is then a string, the
  result is the concatenation of their texts, otherwise the sum of their numbers.
\<close>

fun to_primitive_is_string :: "jsval \<Rightarrow> bool" where
  "to_primitive_is_string (Number n) = False"
| "to_primitive_is_string Undefined = False"
| "to_primitive_is_string (Func f) = True"
| "to_primitive_is_string Proto = True"
| "to_primitive_is_string (Str t) = True"

fun to_text :: "jsval \<Rightarrow> jstext" where
  "to_text (Number n) = NumberText n"
| "to_text Undefined = Chars ''undefined''"
| "to_text (Func f) = FunctionText f"
| "to_text Proto = Chars ''[object Object]''"
| "to_text (Str t) = t"

definition js_add :: "jsval \<Rightarrow> jsval \<Rightarrow> jsval" where
  "js_add a b =
     (if to_primitive_is_string a \<or> to_primitive_is_string b
      then Str (Append (to_text a) (to_text b))
      else Number (num_add (to_number a) (to_number b)))"

text \<open>
  \<^verbatim>\<open>a < n\<close> and \<^verbatim>\<open>a > n\<close> against a number \<open>n\<close>: the left operand is converted to
  a number, and a comparison with NaN is false.
\<close>

definition js_lt :: "jsval \<Rightarrow> real \<Rightarrow> bool" where
  "js_lt a n = num_lt (to_number a) (Num n)"

definition js_gt :: "jsval \<Rightarrow> real \<Rightarrow> bool" where
  "js_gt a n = num_lt (Num n) (to_number a)"

subsection \<open>Property lookup\<close>

text \<open>
  \<^verbatim>\<open>obj[key]\<close> on an object literal: the key is turned into a string (\<^verbatim>\<open>undefined\<close>
  becomes \<^verbatim>\<open>"undefined"\<close>), the own properties are searched first, then the members of
  \<^verbatim>\<open>Object.prototype\<close>; a key found in neither gives \<^verbatim>\<open>undefined\<close>.
\<close>

definition to_string :: "string option \<Rightarrow> string" where
  "to_string v = (case v of None \<Rightarrow> ''undefined'' | Some s \<Rightarrow> s)"

definition object_prototype :: "(string \<times> jsval) list" where
  "object_prototype =
     [(''constructor'', Func ''Object''),
      (''__defineGetter__'', Func ''__defineGetter__''),
      (''__defineSetter__'', Func ''__defineSetter__''),
      (''hasOwnProperty'', Func ''hasOwnProperty''),
      (''__lookupGetter__'', Func ''__lookupGetter__''),
      (''__lookupSetter__'', Func ''__lookupSetter__''),
      (''isPrototypeOf'', Func ''isPrototypeOf''),
      (''propertyIsEnumerable'', Func ''propertyIsEnumerable''),
      (''toString'', Func ''toString''),
      (''valueOf'', Func ''valueOf''),
      (''__proto__'', Proto),
      (''toLocaleString'', Func ''toLocaleString'')]"

definition get_prop :: "(string \<times> jsval) list \<Rightarrow> string option \<Rightarrow> jsval" where
  "get_prop obj key =
     (case map_of obj (to_string key) of
        Some v \<Rightarrow> v
      | None \<Rightarrow> (case map_of object_prototype (to_string key) of
                   Some v \<Rightarrow> v
                 | None \<Rightarrow> Undefined))"

subsection \<open>\<^verbatim>\<open>parseFloat\<close> and \<^verbatim>\<open>parseInt\<close>\<close>

text \<open>
  Both built-ins turn their argument into a string, skip leading white space and read
  the longest prefix that is a literal; with no such prefix the result is NaN.
  \<^verbatim>\<open>parseFloat\<close> reads a sign, then \<^verbatim>\<open>Infinity\<close> or decimal digits with an optional
  fraction and exponent; \<^verbatim>\<open>parseInt\<close>, called without a radix, reads a sign, then
  hexadecimal digits after \<^verbatim>\<open>0x\<close> and decimal digits otherwise. Form values are modelled
  as ASCII strings, and a field the form does not have as \<open>None\<close>.
\<close>

definition is_ws :: "char \<Rightarrow> bool" where
  "is_ws c = (c \<in> set [CHR 0x09, CHR 0x0A, CHR 0x0B, CHR 0x0C, CHR 0x0D, CHR '' ''])"

definition digit_table :: "(char \<times> nat) list" where
  "digit_table =
     [(CHR ''0'', 0), (CHR ''1'', 1), (CHR ''2'', 2), (CHR ''3'', 3), (CHR ''4'', 4),
      (CHR ''5'', 5), (CHR ''6'', 6), (CHR ''7'', 7), (CHR ''8'', 8), (CHR ''9'', 9),
      (CHR ''a'', 10), (CHR ''b'', 11), (CHR ''c'', 12), (CHR ''d'', 13), (CHR ''e'', 14),
      (CHR ''f'', 15),
      (CHR ''A'', 10), (CHR ''B'', 11), (CHR ''C'', 12), (CHR ''D'', 13), (CHR ''E'', 14),
      (CHR ''F'', 15)]"

definition radix_digit :: "nat \<Rightarrow> char \<Rightarrow> nat option" where
  "radix_digit R c =
     (case map_of digit_table c of
        Some v \<Rightarrow> if v < R then Some v else None
      | None \<Rightarrow> None)"

definition is_radix_digit :: "nat \<Rightarrow> char \<Rightarrow> bool" where
  "is_radix_digit R c = (radix_digit R c \<noteq> None)"

definition digits_value :: "nat \<Rightarrow> string \<Rightarrow> nat" where
  "digits_value R ds =
     foldl (\<lambda>a c. a * R + (case radix_digit R c of Some v \<Rightarrow> v | None \<Rightarrow> 0)) 0 ds"

definition strip_sign :: "string \<Rightarrow> bool \<times> string" where
  "strip_sign s =
     (case s of
        [] \<Rightarrow> (False, [])
      | c # r \<Rightarrow> if c = CHR ''-'' then (True, r)
                 else if c = CHR ''+'' then (False, r)
                 else (False, s))"

definition exponent_part :: "string \<Rightarrow> int" where
  "exponent_part s =
     (case s of
        [] \<Rightarrow> 0
      | c # r \<Rightarrow>
          if c = CHR ''e'' \<or> c = CHR ''E''
          then (let (neg, r') = strip_sign r;
                    ds = takeWhile (is_radix_digit 10) r'
                in if ds = [] then 0
                   else if neg then - int (digits_value 10 ds)
                   else int (digits_value 10 ds))
          else 0)"

definition scale10 :: "real \<Rightarrow> int \<Rightarrow> real" where
  "scale10 m e = (if 0 \<le> e then m * 10 ^ nat e else m / 10 ^ nat (- e))"

definition str_unsigned_decimal :: "string \<Rightarrow> jsnum" where
  "str_unsigned_decimal s =
     (if take 8 s = ''Infinity'' then PosInf
      else
        let ip = takeWhile (is_radix_digit 10) s;
            r1 = dropWhile (is_radix_digit 10) s;
            dot = (case r1 of [] \<Rightarrow> False | c # r \<Rightarrow> c = CHR ''.'');
            fp = (if dot then takeWhile (is_radix_digit 10) (tl r1) else []);
            r2 = (if dot then dropWhile (is_radix_digit 10) (tl r1) else r1)
        in if ip = [] \<and> fp = [] then NaN
           else Num (scale10 (real (digits_value 10 (ip @ fp)))
                       (exponent_part r2 - int (length fp))))"

definition parseFloat :: "string option \<Rightarrow> jsval" where
  "parseFloat v =
     (let (neg, r) = strip_sign (dropWhile is_ws (to_string v));
          n = str_unsigned_decimal r
      in Number (if neg then num_neg n else n))"

definition parseInt :: "string option \<Rightarrow> jsval" where
  "parseInt v =
     (let (neg, s1) = strip_sign (dropWhile is_ws (to_string v));
          hex = (take 2 s1 = ''0x'' \<or> take 2 s1 = ''0X'');
          R = (if hex then 16 else 10);
          s2 = (if hex then drop 2 s1 else s1);
          z = takeWhile (is_radix_digit R) s2
      in if z = [] then Number NaN
         else Number (Num (if neg then - real (digits_value R z)
                           else real (digits_value R z))))"

section \<open>The emissions estimator\<close>

text \<open>The values of the form, by field name, as \<^verbatim>\<open>Object.fromEntries\<close> delivers them.\<close>

record form_data =
  car_type :: "string option"
  car_km :: "string option"
  public_transport_km :: "string option"
  flights_hours :: "string option"
  electricity_kwh :: "string option"
  renewable_energy :: "string option"
  diet_type :: "string option"
  waste_kg :: "string option"
  household_size :: "string option"

record emission_level =
  level :: string
  label :: string
  color :: string

record emissions =
  transport :: jsval
  electricity :: jsval
  diet :: jsval
  waste :: jsval
  total :: jsval
  perCapita :: jsval
  householdSize :: jsval
  emissionLevel :: emission_level

subsection \<open>\<^verbatim>\<open>this.emissionFactors\<close>\<close>

definition ef_transport :: "(string \<times> jsval) list" where
  "ef_transport =
     [(''petrol'', Number (Num 0.12)),
      (''diesel'', Number (Num 0.13)),
      (''hybrid'', Number (Num 0.08)),
      (''electric'', Number (Num 0.05)),
      (''none'', Number (Num 0))]"

definition ef_electricity :: jsval where
  "ef_electricity = Number (Num 0.5)"

definition ef_diet :: "(string \<times> jsval) list" where
  "ef_diet =
     [(''vegetarian'', Number (Num 1000)),
      (''meat_light'', Number (Num 1500)),
      (''meat_medium'', Number (Num 2000)),
      (''meat_heavy'', Number (Num 3000))]"

definition ef_waste :: jsval where
  "ef_waste = Number (Num 0.5)"

definition ef_flights :: jsval where
  "ef_flights = Number (Num 0.2)"

definition ef_public_transport :: jsval where
  "ef_public_transport = Number (Num 0.05)"

subsection \<open>The category formulas\<close>

definition calculateTransportEmissions ::
  "string option \<Rightarrow> jsval \<Rightarrow> jsval \<Rightarrow> jsval \<Rightarrow> jsval" where
  "calculateTransportEmissions carType carKm publicTransportKm flightsHours =
     (let carEmissions = js_mul (js_mul carKm (Number (Num 52))) (get_prop ef_transport carType);
          publicTransportEmissions =
            js_mul (js_mul publicTransportKm (Number (Num 52))) ef_public_transport;
          flightKm = js_mul flightsHours (Number (Num 800));
          flightEmissions = js_mul flightKm ef_flights
      in js_add (js_add carEmissions publicTransportEmissions) flightEmissions)"

definition renewableFactors :: "(string \<times> jsval) list" where
  "renewableFactors =
     [(''none'', Number (Num 1.0)),
      (''some'', Number (Num 0.7)),
      (''most'', Number (Num 0.3)),
      (''all'', Number (Num 0.1))]"

definition calculateElectricityEmissions :: "jsval \<Rightarrow> string option \<Rightarrow> jsval \<Rightarrow> jsval" where
  "calculateElectricityEmissions electricityKwh renewableLevel hs =
     (let factor = js_or (get_prop renewableFactors renewableLevel) (Number (Num 1.0))
      in js_div (js_mul (js_mul (js_mul electricityKwh (Number (Num 12))) ef_electricity) factor)
           hs)"

definition calculateDietEmissions :: "string option \<Rightarrow> jsval" where
  "calculateDietEmissions dietType =
     js_or (get_prop ef_diet dietType) (get_prop ef_diet (Some ''meat_medium''))"

definition calculateWasteEmissions :: "jsval \<Rightarrow> jsval" where
  "calculateWasteEmissions wasteKg = js_mul (js_mul wasteKg (Number (Num 52))) ef_waste"

definition getEmissionLevel :: "jsval \<Rightarrow> emission_level" where
  "getEmissionLevel perCapitaEmissions =
     (if js_lt perCapitaEmissions 2000
      then \<lparr>level = ''low'', label = ''Low'', color = ''success''\<rparr>
      else if js_lt perCapitaEmissions 5000
      then \<lparr>level = ''moderate'', label = ''Moderate'', color = ''warning''\<rparr>
      else if js_lt perCapitaEmissions 10000
      then \<lparr>level = ''high'', label = ''High'', color = ''danger''\<rparr>
      else \<lparr>level = ''very_high'', label = ''Very High'', color = ''danger''\<rparr>)"

subsection \<open>\<^verbatim>\<open>calculateEmissions\<close>\<close>

text \<open>The argument is \<open>None\<close> when the page has no calculator form.\<close>

definition calculateEmissions :: "form_data option \<Rightarrow> emissions" where
  "calculateEmissions form =
     (case form of
        None \<Rightarrow>
          \<lparr>transport = Number (Num 0), electricity = Number (Num 0), diet = Number (Num 0),
           waste = Number (Num 0), total = Number (Num 0), perCapita = Number (Num 0),
           householdSize = Number (Num 1),
           emissionLevel = \<lparr>level = ''low'', label = ''Low'', color = ''success''\<rparr>\<rparr>
      | Some d \<Rightarrow>
          let carKm = js_or (parseFloat (car_km d)) (Number (Num 0));
              publicTransportKm = js_or (parseFloat (public_transport_km d)) (Number (Num 0));
              electricityKwh = js_or (parseFloat (electricity_kwh d)) (Number (Num 0));
              wasteKg = js_or (parseFloat (waste_kg d)) (Number (Num 0));
              flightsHours = js_or (parseFloat (flights_hours d)) (Number (Num 0));
              hs = js_or (parseInt (household_size d)) (Number (Num 1));
              transportEmissions =
                calculateTransportEmissions (car_type d) carKm publicTransportKm flightsHours;
              electricityEmissions =
                calculateElectricityEmissions electricityKwh (renewable_energy d) hs;
              dietEmissions = calculateDietEmissions (diet_type d);
              wasteEmissions = calculateWasteEmissions wasteKg;
              totalEmissions =
                js_add (js_add (js_add transportEmissions electricityEmissions) dietEmissions)
                  wasteEmissions;
              perCapitaEmissions = js_div totalEmissions hs
          in \<lparr>transport = transportEmissions, electricity = electricityEmissions,
              diet = dietEmissions, waste = wasteEmissions, total = totalEmissions,
              perCapita = perCapitaEmissions, householdSize = hs,
              emissionLevel = getEmissionLevel perCapitaEmissions\<rparr>)"

section \<open>Suggestions\<close>

record suggestion =
  category :: string
  title :: string
  description :: string
  impact :: string
  savings :: string

text \<open>The texts name the unit with a subscript two, three bytes in UTF-8.\<close>

definition co2e :: string where
  "co2e = ''CO'' @ [CHR 0xE2, CHR 0x82, CHR 0x82] @ ''e''"

definition transport_suggestion :: suggestion where
  "transport_suggestion =
     \<lparr>category = ''Transport'', title = ''Reduce Car Usage'',
      description =
        ''Consider carpooling, using public transport, or cycling for short trips.'',
      impact = ''High'', savings = ''Up to 1000 kg '' @ co2e @ ''/year''\<rparr>"

definition electricity_suggestion :: suggestion where
  "electricity_suggestion =
     \<lparr>category = ''Electricity'', title = ''Switch to Renewable Energy'',
      description = ''Install solar panels or switch to a green energy provider.'',
      impact = ''Medium'', savings = ''Up to 750 kg '' @ co2e @ ''/year''\<rparr>"

definition diet_suggestion :: suggestion where
  "diet_suggestion =
     \<lparr>category = ''Diet'', title = ''Reduce Meat Consumption'',
      description = ''Try vegetarian meals 2-3 times per week.'',
      impact = ''High'', savings = ''Up to 1000 kg '' @ co2e @ ''/year''\<rparr>"

definition general_suggestion :: suggestion where
  "general_suggestion =
     \<lparr>category = ''General'', title = ''Plant Trees'',
      description = ''Each tree absorbs about 21 kg of CO'' @ [CHR 0xE2, CHR 0x82, CHR 0x82]
                    @ '' per year.'',
      impact = ''Low'', savings = ''21 kg '' @ co2e @ ''/year per tree''\<rparr>"

text \<open>Each \<^verbatim>\<open>push\<close> appends to the end of the list.\<close>

definition generateSuggestions :: "emissions \<Rightarrow> suggestion list" where
  "generateSuggestions e =
     (let suggestions = [];
          suggestions = (if js_gt (transport e) 2000
                         then suggestions @ [transport_suggestion] else suggestions);
          suggestions = (if js_gt (electricity e) 1500
                         then suggestions @ [electricity_suggestion] else suggestions);
          suggestions = (if js_gt (diet e) 2000
                         then suggestions @ [diet_suggestion] else suggestions)
      in suggestions @ [general_suggestion])"

section \<open>Persistence\<close>

subsection \<open>JSON documents\<close>

text \<open>
  A text handed to the store or to the server is represented by the document
  \<^verbatim>\<open>JSON.parse\<close> reads from it. \<^verbatim>\<open>JSON.stringify\<close> writes a finite number as a number,
  NaN and the infinities as \<^verbatim>\<open>null\<close>, and leaves out a property whose value is
  \<^verbatim>\<open>undefined\<close> or a function; \<^verbatim>\<open>Object.prototype\<close> has no enumerable property of its
  own and is written as the empty object.
\<close>

datatype json =
    JNull
  | JBool bool
  | JNum real
  | JStr jstext
  | JArr "json list"
  | JObj "(string \<times> json) list"

fun json_of_value :: "jsval \<Rightarrow> json option" where
  "json_of_value (Number (Num r)) = Some (JNum r)"
| "json_of_value (Number NaN) = Some JNull"
| "json_of_value (Number PosInf) = Some JNull"
| "json_of_value (Number NegInf) = Some JNull"
| "json_of_value Undefined = None"
| "json_of_value (Func f) = None"
| "json_of_value Proto = Some (JObj [])"
| "json_of_value (Str t) = Some (JStr t)"

definition json_prop :: "string \<Rightarrow> jsval \<Rightarrow> (string \<times> json) list" where
  "json_prop k v = (case json_of_value v of None \<Rightarrow> [] | Some j \<Rightarrow> [(k, j)])"

text \<open>Reading a property of a parsed document; \<open>None\<close> stands for \<^verbatim>\<open>undefined\<close>.\<close>

fun json_get :: "json \<Rightarrow> string \<Rightarrow> json option" where
  "json_get (JObj ps) k = map_of ps k"
| "json_get j k = None"

subsection \<open>The browser's store, the clock and the server\<close>

text \<open>
  The item stored under \<^verbatim>\<open>carbonHistory\<close>: absent, the empty text, a text that is not
  JSON, or the text of a document. \<open>setItem_fails\<close> says that the store refuses
  writes (no room left, or storage switched off).
\<close>

datatype item = NoItem | EmptyText | BadText | JsonText json

record web_storage =
  carbonHistory :: item
  setItem_fails :: bool

record clock =
  now :: nat
  iso_string :: string

text \<open>The outcome of the one request: no response at all, or a status and whether
  the body of the response is JSON.\<close>

datatype fetch_outcome = NetworkError | Response nat bool

definition response_ok :: "nat \<Rightarrow> bool" where
  "response_ok status = (200 \<le> status \<and> status \<le> 299)"

text \<open>What the user and the outside world see of a save, in order.\<close>

datatype event =
    Fetch json
  | SetItem json
  | SuccessAlert string
  | ErrorAlert string

subsection \<open>\<^verbatim>\<open>saveToLocalStorage\<close>\<close>

text \<open>\<^verbatim>\<open>JSON.parse(localStorage.getItem('carbonHistory') || '[]')\<close>; \<open>None\<close> when
  the parse throws.\<close>

fun parse_history :: "item \<Rightarrow> json option" where
  "parse_history NoItem = Some (JArr [])"
| "parse_history EmptyText = Some (JArr [])"
| "parse_history BadText = None"
| "parse_history (JsonText j) = Some j"

definition history_record :: "clock \<Rightarrow> emissions \<Rightarrow> json" where
  "history_record c e =
     JObj (json_prop ''id'' (Number (Num (real (now c))))
           @ [(''date'', JStr (Chars (iso_string c)))]
           @ json_prop ''total'' (total e)
           @ json_prop ''perCapita'' (perCapita e)
           @ [(''level'', JStr (Chars (label (emissionLevel e)))),
              (''color'', JStr (Chars (color (emissionLevel e)))),
              (''breakdown'',
                 JObj (json_prop ''transport'' (transport e)
                       @ json_prop ''electricity'' (electricity e)
                       @ json_prop ''diet'' (diet e)
                       @ json_prop ''waste'' (waste e)))]
           @ json_prop ''householdSize'' (householdSize e))"

definition local_failure :: string where
  "local_failure = ''Failed to save calculation. Please try again.''"

text \<open>
  Every exception inside the \<^verbatim>\<open>try\<close> ends in the error alert and leaves the store as it
  was: a stored text that does not parse, a stored document that is not an array (it has
  no \<^verbatim>\<open>unshift\<close>), a refused write.
\<close>

definition saveToLocalStorage ::
  "clock \<Rightarrow> emissions \<Rightarrow> web_storage \<Rightarrow> web_storage \<times> event list" where
  "saveToLocalStorage c e st =
     (case parse_history (carbonHistory st) of
        None \<Rightarrow> (st, [ErrorAlert local_failure])
      | Some (JArr calcHistory) \<Rightarrow>
          (let unshifted = history_record c e # calcHistory;
               limitedHistory = take 10 unshifted
           in if setItem_fails st then (st, [ErrorAlert local_failure])
              else (st\<lparr>carbonHistory := JsonText (JArr limitedHistory)\<rparr>,
                    [SetItem (JArr limitedHistory),
                     SuccessAlert ''Calculation saved to your browser!'']))
      | Some other \<Rightarrow> (st, [ErrorAlert local_failure]))"

subsection \<open>\<^verbatim>\<open>saveToServer\<close>\<close>

text \<open>The body of the request: the fields the form has, then the computed values.\<close>

definition form_entry :: "string \<Rightarrow> string option \<Rightarrow> (string \<times> json) list" where
  "form_entry k v = (case v of None \<Rightarrow> [] | Some s \<Rightarrow> [(k, JStr (Chars s))])"

definition request_body :: "form_data \<Rightarrow> emissions \<Rightarrow> json" where
  "request_body d e =
     JObj (form_entry ''car_type'' (car_type d)
           @ form_entry ''car_km'' (car_km d)
           @ form_entry ''public_transport_km'' (public_transport_km d)
           @ form_entry ''flights_hours'' (flights_hours d)
           @ form_entry ''electricity_kwh'' (electricity_kwh d)
           @ form_entry ''renewable_energy'' (renewable_energy d)
           @ form_entry ''diet_type'' (diet_type d)
           @ form_entry ''waste_kg'' (waste_kg d)
           @ form_entry ''household_size'' (household_size d)
           @ json_prop ''calculated_total'' (total e)
           @ json_prop ''calculated_transport'' (transport e)
           @ json_prop ''calculated_electricity'' (electricity e)
           @ json_prop ''calculated_diet'' (diet e)
           @ json_prop ''calculated_waste'' (waste e))"

text \<open>
  \<^verbatim>\<open>saveToServer\<close> is called by the submit handler only, after the form was found.
  \<^verbatim>\<open>fetch\<close> is called once. A rejected request and a failure to read the body of an OK
  response as JSON both throw inside the \<^verbatim>\<open>try\<close>, and the \<^verbatim>\<open>catch\<close> saves locally; a
  response that is not OK saves locally in the \<^verbatim>\<open>else\<close> branch.
\<close>

definition saveToServer ::
  "fetch_outcome \<Rightarrow> clock \<Rightarrow> form_data \<Rightarrow> emissions \<Rightarrow> web_storage
     \<Rightarrow> web_storage \<times> event list" where
  "saveToServer remote c d e st =
     (let request = Fetch (request_body d e)
      in case remote of
           NetworkError \<Rightarrow>
             (let (st', t) = saveToLocalStorage c e st in (st', request # t))
         | Response status body_is_json \<Rightarrow>
             if response_ok status
             then (if body_is_json
                   then (st, [request, SuccessAlert ''Calculation saved to your account!''])
                   else (let (st', t) = saveToLocalStorage c e st in (st', request # t)))
             else (let (st', t) = saveToLocalStorage c e st in (st', request # t)))"

subsection \<open>Observing a save\<close>

fun is_fetch :: "event \<Rightarrow> bool" where
  "is_fetch (Fetch b) = True"
| "is_fetch ev = False"

fun is_write :: "event \<Rightarrow> bool" where
  "is_write (SetItem h) = True"
| "is_write ev = False"

fun is_alert :: "event \<Rightarrow> bool" where
  "is_alert (SuccessAlert m) = True"
| "is_alert (ErrorAlert m) = True"
| "is_alert ev = False"

text \<open>Reading the history back: the entry at index 0, and a property of a value read.\<close>

definition newest_entry :: "web_storage \<Rightarrow> json option" where
  "newest_entry st =
     (case parse_history (carbonHistory st) of
        Some (JArr (r # rs)) \<Rightarrow> Some r
      | _ \<Rightarrow> None)"

definition read_field :: "json option \<Rightarrow> string \<Rightarrow> json option" where
  "read_field r k = (case r of None \<Rightarrow> None | Some j \<Rightarrow> json_get j k)"

text \<open>
  The round trip of the specification: a value read back from the history is identical
  to the value that was saved. A finite number is identical to the same number, a string
  to the same string, \<^verbatim>\<open>undefined\<close> to a property that is not there; NaN, an infinity, a
  function or an object is identical to nothing a JSON text can hold.
\<close>

fun reproduces :: "jsval \<Rightarrow> json option \<Rightarrow> bool" where
  "reproduces (Number (Num x)) r = (r = Some (JNum x))"
| "reproduces (Str t) r = (r = Some (JStr t))"
| "reproduces Undefined r = (r = None)"
| "reproduces v r = False"

section \<open>Inputs used in the examples\<close>

definition example_input :: form_data where
  "example_input =
     \<lparr>car_type = Some ''petrol'', car_km = Some ''20'', public_transport_km = Some ''0'',
      flights_hours = Some ''0'', electricity_kwh = Some ''200'',
      renewable_energy = Some ''none'', diet_type = Some ''meat_medium'',
      waste_kg = Some ''10'', household_size = Some ''2''\<rparr>"

definition unknown_car_input :: form_data where
  "unknown_car_input = example_input\<lparr>car_type := Some ''motorcycle''\<rparr>"

definition negative_household_input :: form_data where
  "negative_household_input = example_input\<lparr>household_size := Some ''-2''\<rparr>"

definition negative_car_input :: form_data where
  "negative_car_input = example_input\<lparr>car_km := Some ''-100''\<rparr>"

definition negative_waste_input :: form_data where
  "negative_waste_input = example_input\<lparr>waste_kg := Some ''-5''\<rparr>"

definition infinite_car_input :: form_data where
  "infinite_car_input = example_input\<lparr>car_km := Some ''Infinity''\<rparr>"

definition example_clock :: clock where
  "example_clock = \<lparr>now = 1000, iso_string = ''1970-01-01T00:00:01.000Z''\<rparr>"

definition empty_storage :: web_storage where
  "empty_storage = \<lparr>carbonHistory = NoItem, setItem_fails = False\<rparr>"

definition full_storage :: web_storage where
  "full_storage =
     \<lparr>carbonHistory =
        JsonText (JArr [JNum 1, JNum 2, JNum 3, JNum 4, JNum 5, JNum 6, JNum 7, JNum 8,
                        JNum 9, JNum 10]),
      setItem_fails = False\<rparr>"

section \<open>Evaluation\<close>

lemmas parse_defs = parseFloat_def parseInt_def to_string_def is_ws_def strip_sign_def
  str_unsigned_decimal_def is_radix_digit_def radix_digit_def digit_table_def digits_value_def
  exponent_part_def scale10_def

lemma js_or_finite: "js_or (Number (Num a)) (Number (Num 0)) = Number (Num a)"
  by (simp add: js_or_def)

lemma calc_transport:
  "transport (calculateEmissions (Some d)) =
     calculateTransportEmissions (car_type d)
       (js_or (parseFloat (car_km d)) (Number (Num 0)))
       (js_or (parseFloat (public_transport_km d)) (Number (Num 0)))
       (js_or (parseFloat (flights_hours d)) (Number (Num 0)))"
  by (simp add: calculateEmissions_def Let_def)

lemma calc_electricity:
  "electricity (calculateEmissions (Some d)) =
     calculateElectricityEmissions (js_or (parseFloat (electricity_kwh d)) (Number (Num 0)))
       (renewable_energy d) (js_or (parseInt (household_size d)) (Number (Num 1)))"
  by (simp add: calculateEmissions_def Let_def)

lemma calc_diet:
  "diet (calculateEmissions (Some d)) = calculateDietEmissions (diet_type d)"
  by (simp add: calculateEmissions_def Let_def)

lemma calc_waste:
  "waste (calculateEmissions (Some d)) =
     calculateWasteEmissions (js_or (parseFloat (waste_kg d)) (Number (Num 0)))"
  by (simp add: calculateEmissions_def Let_def)

lemma calc_householdSize:
  "householdSize (calculateEmissions (Some d)) =
     js_or (parseInt (household_size d)) (Number (Num 1))"
  by (simp add: calculateEmissions_def Let_def)

lemma calc_perCapita:
  "perCapita (calculateEmissions form) =
     js_div (total (calculateEmissions form)) (householdSize (calculateEmissions form))"
  by (cases form) (simp_all add: calculateEmissions_def Let_def js_div_def)

lemma calc_level:
  "emissionLevel (calculateEmissions form) =
     getEmissionLevel (perCapita (calculateEmissions form))"
  by (cases form) (simp_all add: calculateEmissions_def Let_def getEmissionLevel_def js_lt_def)

lemma example_parses:
  "parseFloat (car_km example_input) = Number (Num 20)"
  "parseFloat (public_transport_km example_input) = Number (Num 0)"
  "parseFloat (flights_hours example_input) = Number (Num 0)"
  "parseFloat (electricity_kwh example_input) = Number (Num 200)"
  "parseFloat (waste_kg example_input) = Number (Num 10)"
  "parseInt (household_size example_input) = Number (Num 2)"
  by (simp_all add: example_input_def parse_defs)

lemma example_categories:
  "transport (calculateEmissions (Some example_input)) = Number (Num 124.8)"
  "electricity (calculateEmissions (Some example_input)) = Number (Num 600)"
  "diet (calculateEmissions (Some example_input)) = Number (Num 2000)"
  "waste (calculateEmissions (Some example_input)) = Number (Num 260)"
  "total (calculateEmissions (Some example_input)) = Number (Num 2984.8)"
  "perCapita (calculateEmissions (Some example_input)) = Number (Num 1492.4)"
  "householdSize (calculateEmissions (Some example_input)) = Number (Num 2)"
  "level (emissionLevel (calculateEmissions (Some example_input))) = ''low''"
  by code_simp+

section \<open>The category formulas\<close>

lemma js_or_number: "n \<noteq> NaN \<Longrightarrow> js_or (Number n) (Number (Num 0)) = Number n"
  by (cases n) (auto simp: js_or_def)

lemma js_or_household_number:
  "n \<noteq> NaN \<Longrightarrow>
   js_or (Number n) (Number (Num 1)) = Number (if n = Num 0 then Num 1 else n)"
  by (cases n) (auto simp: js_or_def)

lemma transport_factor_lookup:
  assumes "map_of [(''petrol'', 0.12), (''diesel'', 0.13), (''hybrid'', 0.08),
                   (''electric'', 0.05), (''none'', 0 :: real)] ct = Some tf"
  shows "get_prop ef_transport (Some ct) = Number (Num tf)"
  using assms by (auto simp: get_prop_def to_string_def ef_transport_def split: if_splits)

lemma renewable_factor_lookup:
  assumes "map_of [(''none'', 1.0), (''some'', 0.7), (''most'', 0.3), (''all'', 0.1 :: real)] rl
             = Some rf"
  shows "js_or (get_prop renewableFactors (Some rl)) (Number (Num 1.0)) = Number (Num rf)"
  using assms
  by (auto simp: get_prop_def to_string_def renewableFactors_def js_or_def split: if_splits)

lemma diet_constant_lookup:
  assumes "map_of [(''vegetarian'', 1000), (''meat_light'', 1500), (''meat_medium'', 2000),
                   (''meat_heavy'', 3000 :: real)] dt = Some dc"
  shows "calculateDietEmissions (Some dt) = Number (Num dc)"
  using assms
  by (auto simp: calculateDietEmissions_def get_prop_def to_string_def ef_diet_def js_or_def
           split: if_splits)

lemma waste_finite:
  "calculateWasteEmissions (Number (Num w)) = Number (Num (w * 52 * 0.5))"
  by (simp add: calculateWasteEmissions_def js_mul_def ef_waste_def)

lemma transport_formula:
  "get_prop ef_transport ct = tf \<Longrightarrow>
   calculateTransportEmissions ct carKm publicTransportKm flightsHours =
     js_add (js_add (js_mul (js_mul carKm (Number (Num 52))) tf)
                    (js_mul (js_mul publicTransportKm (Number (Num 52))) (Number (Num 0.05))))
            (js_mul (js_mul flightsHours (Number (Num 800))) (Number (Num 0.2)))"
  by (simp add: calculateTransportEmissions_def ef_public_transport_def ef_flights_def)

lemma electricity_formula:
  "js_or (get_prop renewableFactors rl) (Number (Num 1.0)) = rf \<Longrightarrow>
   calculateElectricityEmissions electricityKwh rl hs =
     js_div (js_mul (js_mul (js_mul electricityKwh (Number (Num 12))) (Number (Num 0.5))) rf) hs"
  by (simp add: calculateElectricityEmissions_def ef_electricity_def)

lemma waste_formula:
  "calculateWasteEmissions wasteKg =
     js_mul (js_mul wasteKg (Number (Num 52))) (Number (Num 0.5))"
  by (simp add: calculateWasteEmissions_def ef_waste_def)

text \<open>
  C1. For an input whose car type, renewable share and diet type are keys of the three
  tables and whose numeric fields parse to numbers \<open>ck\<close>, \<open>pk\<close>, \<open>fh\<close>, \<open>kwh\<close>, \<open>w\<close> and
  \<open>hs\<close> (anything but NaN), the four category values are the formulas of the
  specification, computed with the operators of the program in the order written:
  transport is \<^verbatim>\<open>ck * 52 * tf + pk * 52 * 0.05 + fh * 800 * 0.2\<close> with \<open>tf\<close> from petrol
  0.12, diesel 0.13, hybrid 0.08, electric 0.05, none 0; electricity is
  \<^verbatim>\<open>(kwh * 12 * 0.5 * rf) / h\<close> with \<open>rf\<close> from none 1.0, some 0.7, most 0.3, all 0.1 and
  \<open>h\<close> the household size in force (\<open>hs\<close>, or 1 when \<open>hs\<close> is 0); diet is the constant of
  the diet type (1000, 1500, 2000, 3000); waste is \<^verbatim>\<open>w * 52 * 0.5\<close>. The tables are
  written out here as the specification gives them. Every product, sum and quotient in
  the statement is the operator of the program itself (\<open>js_mul\<close>, \<open>js_add\<close>, \<open>js_div\<close>),
  applied to the same operands in the same order as in the source; the statement says
  nothing about how a result is rounded, and its proof uses no equation of the
  arithmetic on numbers. Transport, diet and waste do not change when the household size field
  changes: electricity is the only category divided by it.
\<close>

theorem category_formulas:
  assumes "car_type d = Some ct"
      and "map_of [(''petrol'', 0.12), (''diesel'', 0.13), (''hybrid'', 0.08),
                   (''electric'', 0.05), (''none'', 0 :: real)] ct = Some tf"
      and "renewable_energy d = Some rl"
      and "map_of [(''none'', 1.0), (''some'', 0.7), (''most'', 0.3), (''all'', 0.1 :: real)] rl
             = Some rf"
      and "diet_type d = Some dt"
      and "map_of [(''vegetarian'', 1000), (''meat_light'', 1500), (''meat_medium'', 2000),
                   (''meat_heavy'', 3000 :: real)] dt = Some dc"
      and "parseFloat (car_km d) = Number ck" and "ck \<noteq> NaN"
      and "parseFloat (public_transport_km d) = Number pk" and "pk \<noteq> NaN"
      and "parseFloat (flights_hours d) = Number fh" and "fh \<noteq> NaN"
      and "parseFloat (electricity_kwh d) = Number kwh" and "kwh \<noteq> NaN"
      and "parseFloat (waste_kg d) = Number w" and "w \<noteq> NaN"
      and "parseInt (household_size d) = Number hs" and "hs \<noteq> NaN"
  shows "transport (calculateEmissions (Some d)) =
           js_add (js_add (js_mul (js_mul (Number ck) (Number (Num 52))) (Number (Num tf)))
                          (js_mul (js_mul (Number pk) (Number (Num 52))) (Number (Num 0.05))))
                  (js_mul (js_mul (Number fh) (Number (Num 800))) (Number (Num 0.2)))
       \<and> electricity (calculateEmissions (Some d)) =
           js_div (js_mul (js_mul (js_mul (Number kwh) (Number (Num 12))) (Number (Num 0.5)))
                          (Number (Num rf)))
                  (Number (if hs = Num 0 then Num 1 else hs))
       \<and> diet (calculateEmissions (Some d)) = Number (Num dc)
       \<and> waste (calculateEmissions (Some d)) =
           js_mul (js_mul (Number w) (Number (Num 52))) (Number (Num 0.5))
       \<and> (\<forall>x. transport (calculateEmissions (Some (d\<lparr>household_size := x\<rparr>))) =
                 transport (calculateEmissions (Some d))
            \<and> diet (calculateEmissions (Some (d\<lparr>household_size := x\<rparr>))) =
                 diet (calculateEmissions (Some d))
            \<and> waste (calculateEmissions (Some (d\<lparr>household_size := x\<rparr>))) =
                 waste (calculateEmissions (Some d)))"
proof -
  have carKm: "js_or (parseFloat (car_km d)) (Number (Num 0)) = Number ck"
    using assms(7,8) by (simp add: js_or_number)
  have publicTransportKm: "js_or (parseFloat (public_transport_km d)) (Number (Num 0)) = Number pk"
    using assms(9,10) by (simp add: js_or_number)
  have flightsHours: "js_or (parseFloat (flights_hours d)) (Number (Num 0)) = Number fh"
    using assms(11,12) by (simp add: js_or_number)
  have electricityKwh: "js_or (parseFloat (electricity_kwh d)) (Number (Num 0)) = Number kwh"
    using assms(13,14) by (simp add: js_or_number)
  have wasteKg: "js_or (parseFloat (waste_kg d)) (Number (Num 0)) = Number w"
    using assms(15,16) by (simp add: js_or_number)
  have householdSize:
    "js_or (parseInt (household_size d)) (Number (Num 1)) =
       Number (if hs = Num 0 then Num 1 else hs)"
    using assms(17,18) by (simp add: js_or_household_number)
  have factor: "get_prop ef_transport (car_type d) = Number (Num tf)"
    using assms(1) transport_factor_lookup [OF assms(2)] by simp
  have renewable:
    "js_or (get_prop renewableFactors (renewable_energy d)) (Number (Num 1.0)) = Number (Num rf)"
    using assms(3) renewable_factor_lookup [OF assms(4)] by simp
  have t: "transport (calculateEmissions (Some d)) =
           js_add (js_add (js_mul (js_mul (Number ck) (Number (Num 52))) (Number (Num tf)))
                          (js_mul (js_mul (Number pk) (Number (Num 52))) (Number (Num 0.05))))
                  (js_mul (js_mul (Number fh) (Number (Num 800))) (Number (Num 0.2)))"
    unfolding calc_transport carKm publicTransportKm flightsHours
    by (rule transport_formula [OF factor])
  have e: "electricity (calculateEmissions (Some d)) =
           js_div (js_mul (js_mul (js_mul (Number kwh) (Number (Num 12))) (Number (Num 0.5)))
                          (Number (Num rf)))
                  (Number (if hs = Num 0 then Num 1 else hs))"
    unfolding calc_electricity electricityKwh householdSize
    by (rule electricity_formula [OF renewable])
  have di: "diet (calculateEmissions (Some d)) = Number (Num dc)"
    using assms(5) diet_constant_lookup [OF assms(6)] by (simp add: calc_diet)
  have wa: "waste (calculateEmissions (Some d)) =
           js_mul (js_mul (Number w) (Number (Num 52))) (Number (Num 0.5))"
    unfolding calc_waste wasteKg by (rule waste_formula)
  have ind: "\<forall>x. transport (calculateEmissions (Some (d\<lparr>household_size := x\<rparr>))) =
                 transport (calculateEmissions (Some d))
            \<and> diet (calculateEmissions (Some (d\<lparr>household_size := x\<rparr>))) =
                 diet (calculateEmissions (Some d))
            \<and> waste (calculateEmissions (Some (d\<lparr>household_size := x\<rparr>))) =
                 waste (calculateEmissions (Some d))"
    by (simp add: calc_transport calc_diet calc_waste)
  from t e di wa ind show ?thesis by blast
qed

theorem category_formulas_witness:
  "car_type example_input = Some ''petrol''
   \<and> renewable_energy example_input = Some ''none''
   \<and> diet_type example_input = Some ''meat_medium''
   \<and> parseFloat (car_km example_input) = Number (Num 20)
   \<and> parseInt (household_size example_input) = Number (Num 2)
   \<and> transport (calculateEmissions (Some example_input)) =
       js_add (js_add (js_mul (js_mul (Number (Num 20)) (Number (Num 52))) (Number (Num 0.12)))
                      (js_mul (js_mul (Number (Num 0)) (Number (Num 52))) (Number (Num 0.05))))
              (js_mul (js_mul (Number (Num 0)) (Number (Num 800))) (Number (Num 0.2)))
   \<and> electricity (calculateEmissions (Some example_input)) =
       js_div (js_mul (js_mul (js_mul (Number (Num 200)) (Number (Num 12))) (Number (Num 0.5)))
                      (Number (Num 1.0)))
              (Number (Num 2))
   \<and> diet (calculateEmissions (Some example_input)) = Number (Num 2000)
   \<and> waste (calculateEmissions (Some example_input)) =
       js_mul (js_mul (Number (Num 10)) (Number (Num 52))) (Number (Num 0.5))"
proof -
  have enums: "car_type example_input = Some ''petrol''"
    "renewable_energy example_input = Some ''none''"
    "diet_type example_input = Some ''meat_medium''"
    by (simp_all add: example_input_def)
  have tables:
    "map_of [(''petrol'', 0.12), (''diesel'', 0.13), (''hybrid'', 0.08),
             (''electric'', 0.05), (''none'', 0 :: real)] ''petrol'' = Some 0.12"
    "map_of [(''none'', 1.0), (''some'', 0.7), (''most'', 0.3), (''all'', 0.1 :: real)] ''none''
       = Some 1.0"
    "map_of [(''vegetarian'', 1000), (''meat_light'', 1500), (''meat_medium'', 2000),
             (''meat_heavy'', 3000 :: real)] ''meat_medium'' = Some 2000"
    by simp_all
  have finite: "Num x \<noteq> NaN" for x by simp
  from category_formulas [OF enums(1) tables(1) enums(2) tables(2) enums(3) tables(3)
      example_parses(1) finite example_parses(2) finite example_parses(3) finite
      example_parses(4) finite example_parses(5) finite example_parses(6) finite]
  show ?thesis using enums example_parses by simp
qed

section \<open>The total and the per-capita value\<close>

text \<open>
  C3. For every input (also without a form) the total of the breakdown is
  \<^verbatim>\<open>transport + electricity + diet + waste\<close>: the four category values as they stand in
  the breakdown, added from left to right by the \<^verbatim>\<open>+\<close> of the program, with no other
  operation on them before or between the additions. Non-negative numeric fields are a
  special case.
\<close>

theorem total_is_sum:
  "total (calculateEmissions form) =
     js_add (js_add (js_add (transport (calculateEmissions form))
                            (electricity (calculateEmissions form)))
                    (diet (calculateEmissions form)))
            (waste (calculateEmissions form))"
proof (cases form)
  case None
  have zero: "js_add (Number (Num 0)) (Number (Num 0)) = Number (Num 0)"
    by (simp add: js_add_def)
  show ?thesis
    unfolding None by (simp add: calculateEmissions_def zero)
next
  case (Some d)
  show ?thesis
    unfolding Some by (simp add: calculateEmissions_def Let_def)
qed

lemma parseInt_number: "\<exists>n. parseInt v = Number n"
  by (simp add: parseInt_def Let_def split: prod.splits)

lemma parseInt_absent: "parseInt None = Number NaN"
  by (simp add: parse_defs)

lemma household_effective:
  "householdSize (calculateEmissions (Some d)) =
     (if parseInt (household_size d) = Number NaN \<or> parseInt (household_size d) = Number (Num 0)
      then Number (Num 1) else parseInt (household_size d))"
proof -
  obtain n where n: "parseInt (household_size d) = Number n"
    using parseInt_number by blast
  show ?thesis
    unfolding calc_householdSize n by (cases n) (simp_all add: js_or_def)
qed

lemma household_nonzero:
  "\<exists>n. householdSize (calculateEmissions form) = Number n \<and> n \<noteq> NaN \<and> n \<noteq> Num 0"
proof (cases form)
  case None
  then show ?thesis by (simp add: calculateEmissions_def)
next
  case (Some d)
  obtain n where n: "parseInt (household_size d) = Number n"
    using parseInt_number by blast
  show ?thesis
    unfolding Some household_effective n by simp
qed

text \<open>
  C4, as the code has it. For every input the per-capita value is the total divided, by
  the \<^verbatim>\<open>/\<close> of the program, by the household size in force. That size is the number
  \<^verbatim>\<open>parseInt\<close> returns for the field, and 1 when the field is absent, does not parse, or
  parses to 0; any other value, a negative one included, is kept. It is therefore never
  0 and never NaN, and the division never divides by zero.
\<close>

theorem perCapita_household:
  "perCapita (calculateEmissions form) =
     js_div (total (calculateEmissions form)) (householdSize (calculateEmissions form))
   \<and> (\<exists>n. householdSize (calculateEmissions form) = Number n \<and> n \<noteq> NaN \<and> n \<noteq> Num 0)
   \<and> (\<forall>d. form = Some d \<longrightarrow>
          householdSize (calculateEmissions form) =
            (if parseInt (household_size d) = Number NaN
                \<or> parseInt (household_size d) = Number (Num 0)
             then Number (Num 1) else parseInt (household_size d)))
   \<and> parseInt None = Number NaN"
  using calc_perCapita [of form] household_nonzero [of form] household_effective parseInt_absent
  by blast

theorem perCapita_household_witness:
  "householdSize (calculateEmissions (Some example_input)) = Number (Num 2)
   \<and> perCapita (calculateEmissions (Some example_input)) =
       js_div (total (calculateEmissions (Some example_input))) (Number (Num 2))
   \<and> householdSize (calculateEmissions (Some (example_input\<lparr>household_size := None\<rparr>)))
       = Number (Num 1)
   \<and> householdSize (calculateEmissions (Some (example_input\<lparr>household_size := Some ''0''\<rparr>)))
       = Number (Num 1)
   \<and> householdSize (calculateEmissions (Some (example_input\<lparr>household_size := Some ''abc''\<rparr>)))
       = Number (Num 1)"
proof -
  have p: "parseInt (Some ''0'') = Number (Num 0)" "parseInt (Some ''abc'') = Number NaN"
    "parseInt (household_size example_input) = Number (Num 2)"
    by (simp_all add: parse_defs example_input_def)
  show ?thesis
    using perCapita_household [of "Some example_input"]
      perCapita_household [of "Some (example_input\<lparr>household_size := None\<rparr>)"]
      perCapita_household [of "Some (example_input\<lparr>household_size := Some ''0''\<rparr>)"]
      perCapita_household [of "Some (example_input\<lparr>household_size := Some ''abc''\<rparr>)"]
    by (simp add: p)
qed

text \<open>
  C4 as stated fails for a negative household size: the field \<^verbatim>\<open>-2\<close> parses to \<open>- 2\<close>,
  which is truthy, so the household size in force is \<open>- 2\<close>, not 1 and not positive.
\<close>

theorem household_size_counterexample:
  "parseInt (household_size negative_household_input) = Number (Num (- 2))
   \<and> householdSize (calculateEmissions (Some negative_household_input)) = Number (Num (- 2))
   \<and> householdSize (calculateEmissions (Some negative_household_input)) \<noteq> Number (Num 1)
   \<and> \<not> num_lt (Num 0)
         (to_number (householdSize (calculateEmissions (Some negative_household_input))))"
proof -
  have p: "parseInt (household_size negative_household_input) = Number (Num (- 2))"
    by (simp add: negative_household_input_def example_input_def parse_defs)
  then show ?thesis by (simp add: calc_householdSize js_or_def)
qed

section \<open>Classification\<close>

text \<open>
  C5. The level of a per-capita value \<open>p\<close> follows half-open ascending thresholds: low
  below 2000, moderate from 2000 to below 5000, high from 5000 to below 10000, very high
  from 10000 on; so 1999.99 is low, 2000 moderate, 5000 high and 10000 very high. The
  level of a breakdown is the level of its per-capita value and of nothing else.
\<close>

theorem classification_thresholds:
  "(p < 2000 \<longrightarrow> level (getEmissionLevel (Number (Num p))) = ''low'')
   \<and> (2000 \<le> p \<and> p < 5000 \<longrightarrow> level (getEmissionLevel (Number (Num p))) = ''moderate'')
   \<and> (5000 \<le> p \<and> p < 10000 \<longrightarrow> level (getEmissionLevel (Number (Num p))) = ''high'')
   \<and> (10000 \<le> p \<longrightarrow> level (getEmissionLevel (Number (Num p))) = ''very_high'')
   \<and> level (getEmissionLevel (Number (Num 1999.99))) = ''low''
   \<and> level (getEmissionLevel (Number (Num 2000))) = ''moderate''
   \<and> level (getEmissionLevel (Number (Num 5000))) = ''high''
   \<and> level (getEmissionLevel (Number (Num 10000))) = ''very_high''
   \<and> emissionLevel (calculateEmissions form) =
       getEmissionLevel (perCapita (calculateEmissions form))"
  by (simp add: getEmissionLevel_def js_lt_def calc_level)

theorem classification_thresholds_witness:
  "level (getEmissionLevel (Number (Num 1500))) = ''low''
   \<and> level (getEmissionLevel (Number (Num 3000))) = ''moderate''
   \<and> level (getEmissionLevel (Number (Num 7000))) = ''high''
   \<and> level (getEmissionLevel (Number (Num 12000))) = ''very_high''"
  using classification_thresholds [of 1500 None] classification_thresholds [of 3000 None]
    classification_thresholds [of 7000 None] classification_thresholds [of 12000 None]
  by simp

lemma getEmissionLevel_NaN: "level (getEmissionLevel (Number NaN)) = ''very_high''"
  by (simp add: getEmissionLevel_def js_lt_def)

section \<open>Inputs outside the tables and the number range\<close>

lemma num_mul_NaN_right: "num_mul a NaN = NaN"
  by (cases a) simp_all

lemma transport_unknown_key:
  assumes "map_of ef_transport (to_string ct) = None"
      and "map_of object_prototype (to_string ct) = None"
  shows "calculateTransportEmissions ct carKm publicTransportKm flightsHours = Number NaN"
  using assms
  by (simp add: calculateTransportEmissions_def get_prop_def js_mul_def js_add_def
      num_mul_NaN_right)

lemma diet_unknown_key:
  assumes "map_of ef_diet (to_string dt) = None"
      and "map_of object_prototype (to_string dt) = None"
  shows "calculateDietEmissions dt = Number (Num 2000)"
  using assms
  by (simp add: calculateDietEmissions_def get_prop_def js_or_def)
     (simp add: ef_diet_def to_string_def)

lemma renewable_unknown_key:
  assumes "map_of renewableFactors (to_string rl) = None"
      and "map_of object_prototype (to_string rl) = None"
  shows "js_or (get_prop renewableFactors rl) (Number (Num 1.0)) = Number (Num 1)"
  using assms by (simp add: get_prop_def js_or_def)

lemma numeric_default:
  "parseFloat None = Number NaN"
  "parseFloat (Some []) = Number NaN"
  "parseFloat (Some ''abc'') = Number NaN"
  "js_or (Number NaN) (Number (Num 0)) = Number (Num 0)"
  by (simp_all add: parse_defs js_or_def)

lemma diet_inherited_key:
  "calculateDietEmissions (Some ''constructor'') = Func ''Object''"
  by (simp add: calculateDietEmissions_def get_prop_def js_or_def ef_diet_def to_string_def
      object_prototype_def)

text \<open>
  C2 does not hold of the code. The diet and the renewable share fall back to a default
  through \<^verbatim>\<open>||\<close> (\<open>diet_unknown_key\<close>, \<open>renewable_unknown_key\<close>), and a numeric field
  that does not parse counts as 0 (\<open>numeric_default\<close>); the transport factor has no such
  fallback. For the car type \<^verbatim>\<open>motorcycle\<close>, with every other field as in the example
  of the specification, the lookup gives \<^verbatim>\<open>undefined\<close>, and transport, total and
  per-capita value are NaN, which no comparison is below: the level is very high.
\<close>

theorem unknown_car_type_gives_NaN:
  "transport (calculateEmissions (Some unknown_car_input)) = Number NaN
   \<and> total (calculateEmissions (Some unknown_car_input)) = Number NaN
   \<and> perCapita (calculateEmissions (Some unknown_car_input)) = Number NaN
   \<and> level (emissionLevel (calculateEmissions (Some unknown_car_input))) = ''very_high''"
  by code_simp

text \<open>
  C10. A numeric field that parses to a negative number is used as it is: a negative
  waste mass \<open>w\<close> gives the negative waste value \<open>w * 52 * 0.5\<close>, and a negative car
  distance enters the transport formula unchanged. With \<^verbatim>\<open>car_km = -100\<close> the transport
  value is \<open>- 624\<close> and the total 2236, below the 2860 of the same input with
  \<^verbatim>\<open>car_km = 0\<close>; with \<^verbatim>\<open>waste_kg = -5\<close> the waste value is \<open>- 130\<close> and the total 2594.8,
  below the 2724.8 of the same input with \<^verbatim>\<open>waste_kg = 0\<close>.
\<close>

theorem negative_inputs_not_clamped:
  "(parseFloat (waste_kg d) = Number (Num w) \<and> w < 0 \<longrightarrow>
      waste (calculateEmissions (Some d)) = Number (Num (w * 52 * 0.5)) \<and> w * 52 * 0.5 < 0)
   \<and> (parseFloat (car_km d) = Number (Num ck) \<and> ck < 0 \<longrightarrow>
      transport (calculateEmissions (Some d)) =
        calculateTransportEmissions (car_type d) (Number (Num ck))
          (js_or (parseFloat (public_transport_km d)) (Number (Num 0)))
          (js_or (parseFloat (flights_hours d)) (Number (Num 0))))
   \<and> transport (calculateEmissions (Some negative_car_input)) = Number (Num (- 624))
   \<and> total (calculateEmissions (Some negative_car_input)) = Number (Num 2236)
   \<and> total (calculateEmissions (Some (negative_car_input\<lparr>car_km := Some ''0''\<rparr>)))
       = Number (Num 2860)
   \<and> waste (calculateEmissions (Some negative_waste_input)) = Number (Num (- 130))
   \<and> total (calculateEmissions (Some negative_waste_input)) = Number (Num 2594.8)
   \<and> total (calculateEmissions (Some (negative_waste_input\<lparr>waste_kg := Some ''0''\<rparr>)))
       = Number (Num 2724.8)"
proof -
  have a: "parseFloat (waste_kg d) = Number (Num w) \<and> w < 0 \<longrightarrow>
      waste (calculateEmissions (Some d)) = Number (Num (w * 52 * 0.5)) \<and> w * 52 * 0.5 < 0"
    by (simp add: calc_waste js_or_finite waste_finite)
  have b: "parseFloat (car_km d) = Number (Num ck) \<and> ck < 0 \<longrightarrow>
      transport (calculateEmissions (Some d)) =
        calculateTransportEmissions (car_type d) (Number (Num ck))
          (js_or (parseFloat (public_transport_km d)) (Number (Num 0)))
          (js_or (parseFloat (flights_hours d)) (Number (Num 0)))"
    by (simp add: calc_transport js_or_finite)
  have c: "transport (calculateEmissions (Some negative_car_input)) = Number (Num (- 624))"
    "total (calculateEmissions (Some negative_car_input)) = Number (Num 2236)"
    "total (calculateEmissions (Some (negative_car_input\<lparr>car_km := Some ''0''\<rparr>)))
       = Number (Num 2860)"
    "waste (calculateEmissions (Some negative_waste_input)) = Number (Num (- 130))"
    "total (calculateEmissions (Some negative_waste_input)) = Number (Num 2594.8)"
    "total (calculateEmissions (Some (negative_waste_input\<lparr>waste_kg := Some ''0''\<rparr>)))
       = Number (Num 2724.8)"
    by code_simp+
  from a b c show ?thesis by blast
qed

theorem negative_inputs_not_clamped_witness:
  "parseFloat (waste_kg negative_waste_input) = Number (Num (- 5))
   \<and> parseFloat (car_km negative_car_input) = Number (Num (- 100))
   \<and> waste (calculateEmissions (Some negative_waste_input)) = Number (Num (- 5 * 52 * 0.5))
   \<and> transport (calculateEmissions (Some negative_car_input)) =
        calculateTransportEmissions (Some ''petrol'') (Number (Num (- 100)))
          (Number (Num 0)) (Number (Num 0))"
proof -
  have p: "parseFloat (waste_kg negative_waste_input) = Number (Num (- 5))"
    "parseFloat (car_km negative_car_input) = Number (Num (- 100))"
    "parseFloat (public_transport_km negative_car_input) = Number (Num 0)"
    "parseFloat (flights_hours negative_car_input) = Number (Num 0)"
    "car_type negative_car_input = Some ''petrol''"
    by (simp_all add: negative_waste_input_def negative_car_input_def example_input_def
        parse_defs)
  show ?thesis
    using negative_inputs_not_clamped [of negative_waste_input "- 5" "- 100"]
      negative_inputs_not_clamped [of negative_car_input "- 5" "- 100"]
    by (simp add: p js_or_def)
qed

section \<open>The suggestions of a breakdown\<close>

lemma suggestions_distinct:
  "transport_suggestion \<noteq> electricity_suggestion" "transport_suggestion \<noteq> diet_suggestion"
  "transport_suggestion \<noteq> general_suggestion" "electricity_suggestion \<noteq> diet_suggestion"
  "electricity_suggestion \<noteq> general_suggestion" "diet_suggestion \<noteq> general_suggestion"
  by (simp_all add: transport_suggestion_def electricity_suggestion_def diet_suggestion_def
      general_suggestion_def)

lemma generateSuggestions_eq:
  "generateSuggestions e =
     (if js_gt (transport e) 2000 then [transport_suggestion] else [])
     @ (if js_gt (electricity e) 1500 then [electricity_suggestion] else [])
     @ (if js_gt (diet e) 2000 then [diet_suggestion] else [])
     @ [general_suggestion]"
  by (simp add: generateSuggestions_def Let_def)

text \<open>
  C9. The suggestions are a function of the breakdown alone. The list holds the transport
  suggestion exactly when transport is above 2000, the electricity suggestion exactly
  when electricity is above 1500, the diet suggestion exactly when diet is above 2000;
  the tree-planting suggestion is always its last element and occurs once; nothing else
  is in the list and nothing occurs twice. The records are fixed: two breakdowns on the
  same side of the three thresholds get the same list, whatever their values.
\<close>

theorem suggestions_by_threshold:
  "(transport_suggestion \<in> set (generateSuggestions e) \<longleftrightarrow> js_gt (transport e) 2000)
   \<and> (electricity_suggestion \<in> set (generateSuggestions e) \<longleftrightarrow> js_gt (electricity e) 1500)
   \<and> (diet_suggestion \<in> set (generateSuggestions e) \<longleftrightarrow> js_gt (diet e) 2000)
   \<and> last (generateSuggestions e) = general_suggestion
   \<and> count_list (generateSuggestions e) general_suggestion = 1
   \<and> distinct (generateSuggestions e)
   \<and> set (generateSuggestions e)
        \<subseteq> {transport_suggestion, electricity_suggestion, diet_suggestion, general_suggestion}
   \<and> (transport e = Number (Num t) \<longrightarrow> js_gt (transport e) 2000 = (2000 < t))
   \<and> (electricity e = Number (Num el) \<longrightarrow> js_gt (electricity e) 1500 = (1500 < el))
   \<and> (diet e = Number (Num di) \<longrightarrow> js_gt (diet e) 2000 = (2000 < di))
   \<and> (js_gt (transport e) 2000 = js_gt (transport e') 2000
        \<and> js_gt (electricity e) 1500 = js_gt (electricity e') 1500
        \<and> js_gt (diet e) 2000 = js_gt (diet e') 2000
      \<longrightarrow> generateSuggestions e = generateSuggestions e')"
  using suggestions_distinct
  by (simp add: generateSuggestions_eq js_gt_def)

theorem suggestions_by_threshold_witness:
  "transport (calculateEmissions (Some example_input)) = Number (Num 124.8)
   \<and> generateSuggestions (calculateEmissions (Some example_input)) = [general_suggestion]
   \<and> transport_suggestion \<notin> set (generateSuggestions (calculateEmissions (Some example_input)))"
  using suggestions_by_threshold [of "calculateEmissions (Some example_input)" "124.8" 600 2000
      "calculateEmissions (Some example_input)"]
  by (simp add: example_categories generateSuggestions_eq js_gt_def)

section \<open>The local history\<close>

lemma saveToLocalStorage_cases:
  "(saveToLocalStorage c e st = (st, [ErrorAlert local_failure])
      \<and> (setItem_fails st \<or> (\<forall>old. parse_history (carbonHistory st) \<noteq> Some (JArr old))))
   \<or> (\<exists>old. parse_history (carbonHistory st) = Some (JArr old) \<and> \<not> setItem_fails st
          \<and> saveToLocalStorage c e st =
              (st\<lparr>carbonHistory := JsonText (JArr (take 10 (history_record c e # old)))\<rparr>,
               [SetItem (JArr (take 10 (history_record c e # old))),
                SuccessAlert ''Calculation saved to your browser!'']))"
  by (auto simp: saveToLocalStorage_def Let_def split: option.splits json.splits)

lemma saveToLocalStorage_outcome:
  "(saveToLocalStorage c e st = (st, [ErrorAlert local_failure]))
   \<or> (\<exists>h. saveToLocalStorage c e st =
            (st\<lparr>carbonHistory := JsonText h\<rparr>,
             [SetItem h, SuccessAlert ''Calculation saved to your browser!'']))"
  using saveToLocalStorage_cases [of c e st] by blast

text \<open>
  C6. A local save either fails, leaving the store as it was and raising the error alert,
  or writes a history of at most 10 entries with the new record at index 0: the new
  history is the first 10 entries of the new record followed by the old history, so a
  shorter old history is kept whole and one of 10 entries loses its last, oldest entry.
  This holds for every stored item, every clock reading and every breakdown.
\<close>

theorem local_history_capped:
  assumes "saveToLocalStorage c e st = (st', t)"
  shows "(st' = st \<and> t = [ErrorAlert local_failure])
       \<or> (\<exists>old new. parse_history (carbonHistory st) = Some (JArr old)
             \<and> parse_history (carbonHistory st') = Some (JArr new)
             \<and> new = take 10 (history_record c e # old)
             \<and> length new \<le> 10
             \<and> new ! 0 = history_record c e
             \<and> (length old < 10 \<longrightarrow> new = history_record c e # old)
             \<and> (length old = 10 \<longrightarrow> new = history_record c e # butlast old)
             \<and> (10 \<le> length old \<longrightarrow> new = history_record c e # take 9 old)
             \<and> t = [SetItem (JArr new), SuccessAlert ''Calculation saved to your browser!''])"
proof -
  from saveToLocalStorage_cases [of c e st]
  consider (fail) "saveToLocalStorage c e st = (st, [ErrorAlert local_failure])"
    | (ok) old where "parse_history (carbonHistory st) = Some (JArr old)"
        "saveToLocalStorage c e st =
              (st\<lparr>carbonHistory := JsonText (JArr (take 10 (history_record c e # old)))\<rparr>,
               [SetItem (JArr (take 10 (history_record c e # old))),
                SuccessAlert ''Calculation saved to your browser!''])"
    by blast
  then show ?thesis
  proof cases
    case fail
    with assms show ?thesis by simp
  next
    case ok
    let ?new = "take 10 (history_record c e # old)"
    have eq: "st' = st\<lparr>carbonHistory := JsonText (JArr ?new)\<rparr>"
      "t = [SetItem (JArr ?new), SuccessAlert ''Calculation saved to your browser!'']"
      using assms ok(2) by simp_all
    have tk: "?new = history_record c e # take 9 old"
      by (simp add: take_Cons')
    have b: "length old = 10 \<Longrightarrow> take 9 old = butlast old"
      by (simp add: butlast_conv_take)
    have "parse_history (carbonHistory st') = Some (JArr ?new)"
      using eq by simp
    moreover have "length ?new \<le> 10" by simp
    moreover have "?new ! 0 = history_record c e" by (simp add: tk)
    moreover have "length old < 10 \<longrightarrow> ?new = history_record c e # old" by (simp add: tk)
    moreover have "length old = 10 \<longrightarrow> ?new = history_record c e # butlast old"
      using b by (simp add: tk)
    moreover have "10 \<le> length old \<longrightarrow> ?new = history_record c e # take 9 old"
      by (simp add: tk)
    ultimately show ?thesis using ok(1) eq(2) by blast
  qed
qed

theorem local_history_capped_witness:
  "parse_history (carbonHistory (fst (saveToLocalStorage example_clock
       (calculateEmissions (Some example_input)) full_storage))) =
     Some (JArr [history_record example_clock (calculateEmissions (Some example_input)),
                 JNum 1, JNum 2, JNum 3, JNum 4, JNum 5, JNum 6, JNum 7, JNum 8, JNum 9])
   \<and> parse_history (carbonHistory (fst (saveToLocalStorage example_clock
       (calculateEmissions (Some example_input)) empty_storage))) =
     Some (JArr [history_record example_clock (calculateEmissions (Some example_input))])"
  using local_history_capped [of example_clock "calculateEmissions (Some example_input)"
      full_storage
      "fst (saveToLocalStorage example_clock (calculateEmissions (Some example_input))
              full_storage)"
      "snd (saveToLocalStorage example_clock (calculateEmissions (Some example_input))
              full_storage)"]
    local_history_capped [of example_clock "calculateEmissions (Some example_input)"
      empty_storage
      "fst (saveToLocalStorage example_clock (calculateEmissions (Some example_input))
              empty_storage)"
      "snd (saveToLocalStorage example_clock (calculateEmissions (Some example_input))
              empty_storage)"]
  by (auto simp: full_storage_def empty_storage_def saveToLocalStorage_def Let_def)

lemma read_back_newest:
  assumes "saveToLocalStorage c e st = (st', t)"
      and "t \<noteq> [ErrorAlert local_failure]"
  shows "newest_entry st' = Some (history_record c e)"
proof -
  from saveToLocalStorage_cases [of c e st] assms
  obtain old where
    "st' = st\<lparr>carbonHistory := JsonText (JArr (take 10 (history_record c e # old)))\<rparr>"
    by auto
  then show ?thesis by (simp add: newest_entry_def take_Cons')
qed

lemma history_record_finite:
  assumes "transport e = Number (Num tr)" "electricity e = Number (Num el)"
    "diet e = Number (Num di)" "waste e = Number (Num w)" "total e = Number (Num tot)"
  shows "read_field (Some (history_record c e)) ''total'' = Some (JNum tot)"
    "read_field (read_field (Some (history_record c e)) ''breakdown'') ''transport''
       = Some (JNum tr)"
    "read_field (read_field (Some (history_record c e)) ''breakdown'') ''electricity''
       = Some (JNum el)"
    "read_field (read_field (Some (history_record c e)) ''breakdown'') ''diet''
       = Some (JNum di)"
    "read_field (read_field (Some (history_record c e)) ''breakdown'') ''waste''
       = Some (JNum w)"
  using assms
  by (simp_all add: history_record_def read_field_def json_prop_def split: option.splits)

text \<open>
  C8, as the code has it. When a local save has written a breakdown whose four category
  values and total are finite numbers, the entry read back at index 0 of the history
  holds the identical total and the identical four category values.
\<close>

theorem history_round_trip:
  assumes "saveToLocalStorage c e st = (st', t)"
      and "t \<noteq> [ErrorAlert local_failure]"
      and "transport e = Number (Num tr)" "electricity e = Number (Num el)"
      and "diet e = Number (Num di)" "waste e = Number (Num w)"
      and "total e = Number (Num tot)"
  shows "reproduces (total e) (read_field (newest_entry st') ''total'')
       \<and> reproduces (transport e)
           (read_field (read_field (newest_entry st') ''breakdown'') ''transport'')
       \<and> reproduces (electricity e)
           (read_field (read_field (newest_entry st') ''breakdown'') ''electricity'')
       \<and> reproduces (diet e)
           (read_field (read_field (newest_entry st') ''breakdown'') ''diet'')
       \<and> reproduces (waste e)
           (read_field (read_field (newest_entry st') ''breakdown'') ''waste'')"
  using read_back_newest [OF assms(1,2)] history_record_finite [OF assms(3-7), of c] assms(3-7)
  by simp

theorem history_round_trip_witness:
  "reproduces (total (calculateEmissions (Some example_input)))
     (read_field (newest_entry (fst (saveToLocalStorage example_clock
        (calculateEmissions (Some example_input)) empty_storage))) ''total'')
   \<and> read_field (newest_entry (fst (saveToLocalStorage example_clock
        (calculateEmissions (Some example_input)) empty_storage))) ''total''
       = Some (JNum 2984.8)"
proof -
  have ok: "snd (saveToLocalStorage example_clock (calculateEmissions (Some example_input))
                   empty_storage) \<noteq> [ErrorAlert local_failure]"
    by (simp add: saveToLocalStorage_def empty_storage_def Let_def)
  show ?thesis
    using history_round_trip [OF prod.collapse [symmetric] ok example_categories(1-5)]
    by (simp add: example_categories)
qed

text \<open>
  C8 as stated fails for a breakdown that holds NaN or an infinity, which a JSON text
  writes as \<^verbatim>\<open>null\<close>. The breakdown of the car type \<^verbatim>\<open>motorcycle\<close> has the transport
  value NaN, and that of \<^verbatim>\<open>car_km = Infinity\<close> has an infinite one; saved into an empty
  store, both are read back as \<^verbatim>\<open>null\<close>.
\<close>

theorem history_round_trip_counterexample:
  "transport (calculateEmissions (Some unknown_car_input)) = Number NaN
   \<and> read_field (read_field (newest_entry (fst (saveToLocalStorage example_clock
        (calculateEmissions (Some unknown_car_input)) empty_storage))) ''breakdown'')
        ''transport'' = Some JNull
   \<and> \<not> reproduces (transport (calculateEmissions (Some unknown_car_input)))
        (read_field (read_field (newest_entry (fst (saveToLocalStorage example_clock
           (calculateEmissions (Some unknown_car_input)) empty_storage))) ''breakdown'')
           ''transport'')
   \<and> transport (calculateEmissions (Some infinite_car_input)) = Number PosInf
   \<and> \<not> reproduces (transport (calculateEmissions (Some infinite_car_input)))
        (read_field (read_field (newest_entry (fst (saveToLocalStorage example_clock
           (calculateEmissions (Some infinite_car_input)) empty_storage))) ''breakdown'')
           ''transport'')"
proof -
  have t: "transport (calculateEmissions (Some unknown_car_input)) = Number NaN"
    "transport (calculateEmissions (Some infinite_car_input)) = Number PosInf"
    by code_simp+
  have n: "newest_entry (fst (saveToLocalStorage example_clock (calculateEmissions (Some d))
             empty_storage))
      = Some (history_record example_clock (calculateEmissions (Some d)))" for d
    by (simp add: saveToLocalStorage_def empty_storage_def Let_def newest_entry_def)
  have r: "read_field (read_field (Some (history_record example_clock
             (calculateEmissions (Some unknown_car_input)))) ''breakdown'') ''transport''
           = Some JNull"
    "read_field (read_field (Some (history_record example_clock
             (calculateEmissions (Some infinite_car_input)))) ''breakdown'') ''transport''
           = Some JNull"
    by (simp_all add: history_record_def read_field_def json_prop_def t split: option.splits)
  show ?thesis by (simp add: t n r)
qed

section \<open>Saving to the server, else locally\<close>

text \<open>
  C7, as the code has it. The request is sent exactly once. When the response is OK
  (status 200 to 299) and its body is JSON, the save ends with the success alert of the
  account and the store is not touched. In every other case (no response, a status that
  is not OK, an OK response whose body is not JSON) the rest of the save is one local
  save. A local save raises exactly one alert: the error alert, with the store left as
  it was, or the success alert of the browser after one write. No path sends a second
  request.
\<close>

theorem persistence_fallback:
  "saveToServer remote c d e st =
     (if \<exists>status. remote = Response status True \<and> 200 \<le> status \<and> status \<le> 299
      then (st, [Fetch (request_body d e), SuccessAlert ''Calculation saved to your account!''])
      else (fst (saveToLocalStorage c e st),
            Fetch (request_body d e) # snd (saveToLocalStorage c e st)))
   \<and> length (filter is_fetch (snd (saveToServer remote c d e st))) = 1
   \<and> length (filter is_alert (snd (saveToServer remote c d e st))) = 1
   \<and> length (filter is_write (snd (saveToServer remote c d e st))) \<le> 1
   \<and> (saveToLocalStorage c e st = (st, [ErrorAlert local_failure])
      \<or> (\<exists>h. saveToLocalStorage c e st =
               (st\<lparr>carbonHistory := JsonText h\<rparr>,
                [SetItem h, SuccessAlert ''Calculation saved to your browser!''])))"
proof -
  have shape: "saveToServer remote c d e st =
     (if \<exists>status. remote = Response status True \<and> 200 \<le> status \<and> status \<le> 299
      then (st, [Fetch (request_body d e), SuccessAlert ''Calculation saved to your account!''])
      else (fst (saveToLocalStorage c e st),
            Fetch (request_body d e) # snd (saveToLocalStorage c e st)))"
    by (cases remote)
       (simp_all add: saveToServer_def response_ok_def Let_def split: prod.splits)
  have local: "saveToLocalStorage c e st = (st, [ErrorAlert local_failure])
      \<or> (\<exists>h. saveToLocalStorage c e st =
               (st\<lparr>carbonHistory := JsonText h\<rparr>,
                [SetItem h, SuccessAlert ''Calculation saved to your browser!'']))"
    by (rule saveToLocalStorage_outcome)
  then have counts:
    "filter is_fetch (snd (saveToLocalStorage c e st)) = []"
    "length (filter is_alert (snd (saveToLocalStorage c e st))) = 1"
    "length (filter is_write (snd (saveToLocalStorage c e st))) \<le> 1"
    by auto
  have "length (filter is_fetch (snd (saveToServer remote c d e st))) = 1"
    "length (filter is_alert (snd (saveToServer remote c d e st))) = 1"
    "length (filter is_write (snd (saveToServer remote c d e st))) \<le> 1"
    using counts by (simp_all add: shape)
  with shape local show ?thesis by blast
qed

theorem persistence_fallback_witness:
  "saveToServer (Response 200 True) example_clock example_input
       (calculateEmissions (Some example_input)) empty_storage =
     (empty_storage,
      [Fetch (request_body example_input (calculateEmissions (Some example_input))),
       SuccessAlert ''Calculation saved to your account!''])
   \<and> saveToServer (Response 500 True) example_clock example_input
       (calculateEmissions (Some example_input)) empty_storage =
     (fst (saveToLocalStorage example_clock (calculateEmissions (Some example_input))
             empty_storage),
      Fetch (request_body example_input (calculateEmissions (Some example_input)))
        # snd (saveToLocalStorage example_clock (calculateEmissions (Some example_input))
                 empty_storage))"
  using persistence_fallback [of "Response 200 True" example_clock example_input
      "calculateEmissions (Some example_input)" empty_storage]
    persistence_fallback [of "Response 500 True" example_clock example_input
      "calculateEmissions (Some example_input)" empty_storage]
  by simp

text \<open>
  C7 as stated fails for an OK response whose body is not JSON: reading the body throws
  inside the \<^verbatim>\<open>try\<close>, the \<^verbatim>\<open>catch\<close> saves locally, and the history is written although
  the status was 200.
\<close>

theorem ok_response_without_json_counterexample:
  "response_ok 200
   \<and> snd (saveToServer (Response 200 False) example_clock example_input
            (calculateEmissions (Some example_input)) empty_storage) =
       [Fetch (request_body example_input (calculateEmissions (Some example_input))),
        SetItem (JArr [history_record example_clock (calculateEmissions (Some example_input))]),
        SuccessAlert ''Calculation saved to your browser!'']
   \<and> carbonHistory (fst (saveToServer (Response 200 False) example_clock example_input
            (calculateEmissions (Some example_input)) empty_storage)) =
       JsonText (JArr [history_record example_clock (calculateEmissions (Some example_input))])"
  by (simp add: saveToServer_def response_ok_def saveToLocalStorage_def empty_storage_def
      Let_def)

end
